theory Spec2Isabelle
  imports Main "HOL-Library.Word"
begin

section \<open>Text\<close>

text \<open>
  A JavaScript string is a sequence of UTF-16 code units. \<open>js\<close> gives the code units of
  an ASCII literal of the source.
\<close>

type_synonym jstring = "16 word list"

definition js :: "string \<Rightarrow> jstring" where
  "js s = map (\<lambda>c. of_nat (of_char c)) s"

text \<open>
  \<open>String.prototype.trim\<close> removes white space and line terminators from both ends.
  The white space of ECMAScript is tab, vertical tab, form feed, U+FEFF and the space
  separators of Unicode (U+0020, U+00A0, U+1680, U+2000 to U+200A, U+202F, U+205F, U+3000);
  the line terminators are line feed, carriage return, U+2028 and U+2029. All of them are
  single code units.
\<close>

definition is_space :: "16 word \<Rightarrow> bool" where
  "is_space c =
     (c \<in> set [0x0009, 0x000A, 0x000B, 0x000C, 0x000D, 0x0020, 0x00A0, 0x1680,
               0x2000, 0x2001, 0x2002, 0x2003, 0x2004, 0x2005, 0x2006, 0x2007,
               0x2008, 0x2009, 0x200A, 0x2028, 0x2029, 0x202F, 0x205F, 0x3000, 0xFEFF])"

definition trim :: "jstring \<Rightarrow> jstring" where
  "trim s = rev (dropWhile is_space (rev (dropWhile is_space s)))"

text \<open>\<open>Number.prototype.toString\<close> on a non-negative integer: its decimal digits.\<close>

definition digit :: "nat \<Rightarrow> 16 word" where
  "digit n = of_nat (48 + n)"

fun toString :: "nat \<Rightarrow> jstring" where
  "toString n = (if n < 10 then [digit n] else toString (n div 10) @ [digit (n mod 10)])"

declare toString.simps [simp del]

text \<open>
  \<open>String.prototype.toLowerCase\<close> is the case mapping of Unicode. The operations take
  it from the environment, as a function on strings, and nothing is assumed about it.
  \<open>latin1_toLowerCase\<close> is that mapping on text whose code units are below U+0100 (it
  maps \<open>A\<close> to \<open>Z\<close> and U+00C0 to U+00DE, without U+00D7, to the code unit 32 above, and
  leaves every other code unit below U+0100 alone); it is used for the sample
  environments only, whose text is of this kind.
\<close>

definition latin1_lower :: "16 word \<Rightarrow> 16 word" where
  "latin1_lower c =
     (if (0x41 \<le> c \<and> c \<le> 0x5A) \<or> (0xC0 \<le> c \<and> c \<le> 0xDE \<and> c \<noteq> 0xD7) then c + 0x20 else c)"

definition latin1_toLowerCase :: "jstring \<Rightarrow> jstring" where
  "latin1_toLowerCase s = map latin1_lower s"

section \<open>Cards, decks and the stored item\<close>

text \<open>
  A card is the object literal built in \<open>saveCard\<close>. Its id is the number \<open>Date.now()\<close>.
\<close>

record card =
  card_id :: nat
  card_question :: jstring
  card_answer :: jstring
  createdAt :: jstring

text \<open>
  A deck is \<open>{ id, name, cards }\<close>. The program reads the cards of a deck defensively
  (\<open>deck.cards || []\<close>, \<open>Array.isArray(deck.cards)\<close>), so the field may be missing:
  \<open>None\<close> is a deck object without a cards array.
\<close>

record deck =
  deck_id :: jstring
  deck_name :: jstring
  cards :: "card list option"

text \<open>\<open>deck.cards || []\<close> (an empty array is truthy, so only a missing field gives \<open>[]\<close>).\<close>

definition cards_of :: "deck \<Rightarrow> card list" where
  "cards_of d = (case cards d of None \<Rightarrow> [] | Some cs \<Rightarrow> cs)"

text \<open>
  An element of a stored array: \<open>null\<close>, on which every property read throws a
  \<open>TypeError\<close>, or a deck object.
\<close>

datatype entry = Null | Object deck

text \<open>
  The item under the key \<open>decks\<close> of the device storage, represented by what
  \<open>AsyncStorage.getItem\<close> and \<open>JSON.parse\<close> make of it:
  \<^item> \<open>Absent\<close>: no item, \<open>getItem\<close> gives \<open>null\<close>;
  \<^item> \<open>Blank\<close>: the empty text, which is falsy;
  \<^item> \<open>Unparsable\<close>: a text on which \<open>JSON.parse\<close> throws;
  \<^item> \<open>Other\<close>: a text that parses to a value that is not an array;
  \<^item> \<open>Saved xs\<close>: a text that parses to the array \<open>xs\<close>, whose elements are \<open>null\<close> or
    deck objects (with a string id, a string name and an array of cards or no cards).
  Arrays with elements of another kind are outside the model. The JSON text itself is not
  modelled: that \<open>JSON.parse\<close> reads the text \<open>JSON.stringify\<close> writes for an array of
  decks back as this array is a property of the two built-ins, assumed by this
  representation.
\<close>

datatype stored = Absent | Blank | Unparsable | Other | Saved "entry list"

text \<open>The decks of an array that holds no \<open>null\<close>.\<close>

fun objects :: "entry list \<Rightarrow> deck list option" where
  "objects [] = Some []"
| "objects (Null # xs) = None"
| "objects (Object d # xs) = map_option ((#) d) (objects xs)"

text \<open>
  \<open>array.find(deck => deck.id === id)\<close> visits the elements in order and stops at the
  first match: it throws when it meets \<open>null\<close> before any deck with the id.
\<close>

fun find_throws :: "jstring \<Rightarrow> entry list \<Rightarrow> bool" where
  "find_throws i [] = False"
| "find_throws i (Null # xs) = True"
| "find_throws i (Object d # xs) = (if deck_id d = i then False else find_throws i xs)"

section \<open>The state of the component and its environment\<close>

text \<open>
  The \<open>useState\<close> variables that the operations read, and the stored item. The flags
  that only the rendering reads (\<open>isLoading\<close>, \<open>isSaving\<close>, \<open>showAddModal\<close>,
  \<open>showDeckModal\<close>, \<open>flipAnimation\<close>) are left out. The deck list of a component that
  renders holds deck objects only: the render of the home screen reads \<open>deck.id\<close> of each
  element of the deck list, which throws on \<open>null\<close>.
\<close>

record app =
  flashcards :: "card list"
  decks :: "deck list"
  currentDeck :: jstring
  question :: jstring
  answer :: jstring
  newDeckName :: jstring
  studyMode :: bool
  currentCardIndex :: nat
  showAnswer :: bool
  disk :: stored

text \<open>
  What the environment answers during one operation: the clock (\<open>Date.now()\<close> and
  \<open>new Date().toISOString()\<close>), whether \<open>AsyncStorage.setItem\<close> and
  \<open>AsyncStorage.getItem\<close> succeed, and \<open>String.prototype.toLowerCase\<close>.
\<close>

record env =
  now :: nat
  iso :: jstring
  write_ok :: bool
  read_ok :: bool
  toLowerCase :: "jstring \<Rightarrow> jstring"

text \<open>
  How an operation ends. \<open>Alert t m\<close>: the operation shows the alert with title \<open>t\<close> and
  message \<open>m\<close> and returns before any update. \<open>Cancelled\<close>: the user pressed Cancel in
  the confirmation. \<open>TypeError\<close>: a property of \<open>undefined\<close> is read and the handler
  throws. \<open>Success\<close>: the updates are made.
\<close>

datatype outcome = Success | Alert string string | Cancelled | TypeError

datatype button = Cancel | Delete

definition defaultDecks :: "deck list" where
  "defaultDecks = [\<lparr>deck_id = js ''default'', deck_name = js ''My Cards'', cards = Some []\<rparr>]"

text \<open>The initial values of the state variables, over a given device storage.\<close>

definition initial :: "stored \<Rightarrow> app" where
  "initial st =
     \<lparr>flashcards = [], decks = defaultDecks, currentDeck = js ''default'',
      question = [], answer = [], newDeckName = [],
      studyMode = False, currentCardIndex = 0, showAnswer = False, disk = st\<rparr>"

section \<open>Persistence\<close>

text \<open>
  \<open>saveData\<close>: the argument is always an array here, so the format check passes; a
  failing \<open>setItem\<close> is caught and reported, and the stored item stays as it was.
\<close>

definition saveData :: "env \<Rightarrow> deck list \<Rightarrow> stored \<Rightarrow> stored" where
  "saveData e decksData st = (if write_ok e then Saved (map Object decksData) else st)"

definition resetToDefault :: "env \<Rightarrow> app \<Rightarrow> app" where
  "resetToDefault e s =
     s\<lparr>decks := defaultDecks, flashcards := [], currentDeck := js ''default'',
       disk := saveData e defaultDecks (disk s)\<rparr>"

text \<open>
  How \<open>loadData\<close> ends when the component goes on to render: nothing stored (the state
  is not touched), the stored decks taken over, the fallback for corrupted data, or the
  catch block. The catch block shows an alert whose only button, OK, runs
  \<open>resetToDefault\<close>.
\<close>

datatype loaded = NothingStored | Loaded | Corrupted | LoadError

text \<open>
  \<open>Mounted r s\<close>: \<open>loadData\<close> ends as \<open>r\<close> and the home screen renders the state \<open>s\<close>.
  \<open>Unmounted alerted\<close>: the stored array is not empty and holds \<open>null\<close>. \<open>setDecks\<close>
  makes it the deck list. When \<open>find\<close> meets the \<open>null\<close>, it throws, and the catch
  block shows its alert (\<open>alerted\<close>); otherwise \<open>find\<close> returns and the cards are set as
  usual. Either way \<open>setIsLoading(false)\<close> in the finally block lets the home screen
  render, and this render throws on the \<open>null\<close> of the deck list (\<open>getCurrentDeckName\<close>
  and the deck selector read \<open>deck.id\<close>): no error boundary catches it, and the
  component is unmounted. Nothing has been written to the storage by then. What the
  button of an alert does after the component is gone is not modelled.
\<close>

datatype load_end = Mounted loaded app | Unmounted bool

definition loadData :: "env \<Rightarrow> app \<Rightarrow> load_end" where
  "loadData e s =
     (if \<not> read_ok e then Mounted LoadError s
      else case disk s of
        Absent \<Rightarrow> Mounted NothingStored s
      | Blank \<Rightarrow> Mounted NothingStored s
      | Unparsable \<Rightarrow> Mounted LoadError s
      | Other \<Rightarrow> Mounted Corrupted (resetToDefault e s)
      | Saved decksData \<Rightarrow>
          if length decksData > 0 then
            (case objects decksData of
               None \<Rightarrow> Unmounted (find_throws (currentDeck s) decksData)
             | Some ds \<Rightarrow>
                 Mounted Loaded
                   (let s1 = s\<lparr>decks := ds\<rparr>
                    in case find (\<lambda>d. deck_id d = currentDeck s) ds of
                         None \<Rightarrow> s1
                       | Some currentDeckData \<Rightarrow>
                           (case cards currentDeckData of
                              None \<Rightarrow> s1
                            | Some cs \<Rightarrow> s1\<lparr>flashcards := cs\<rparr>)))
          else Mounted Corrupted (resetToDefault e s))"

text \<open>
  \<open>loadData\<close> followed by the user pressing OK on the alert of the catch block; \<open>None\<close>
  when the component is unmounted.
\<close>

definition load :: "env \<Rightarrow> app \<Rightarrow> app option" where
  "load e s =
     (case loadData e s of
        Mounted LoadError s1 \<Rightarrow> Some (resetToDefault e s1)
      | Mounted _ s1 \<Rightarrow> Some s1
      | Unmounted _ \<Rightarrow> None)"

text \<open>
  Starting the app: the component is mounted with the initial values of its state
  variables over the storage of the device, and the effect runs \<open>loadData\<close>. This is
  the only call of \<open>loadData\<close>.
\<close>

definition launch :: "env \<Rightarrow> stored \<Rightarrow> app option" where
  "launch e st = load e (initial st)"

section \<open>Decks\<close>

definition createDeck :: "env \<Rightarrow> app \<Rightarrow> outcome \<times> app" where
  "createDeck e s =
     (if trim (newDeckName s) = [] then
        (Alert ''Error'' ''Please enter a deck name'', s)
      else if list_ex (\<lambda>d. toLowerCase e (deck_name d) = toLowerCase e (trim (newDeckName s)))
                (decks s) then
        (Alert ''Error'' ''A deck with this name already exists'', s)
      else
        let newDeck = \<lparr>deck_id = toString (now e), deck_name = trim (newDeckName s),
                       cards = Some []\<rparr>;
            updatedDecks = decks s @ [newDeck]
        in (Success,
            s\<lparr>decks := updatedDecks, disk := saveData e updatedDecks (disk s),
              newDeckName := []\<rparr>))"

text \<open>
  \<open>deleteDeck\<close> with the button the user presses in the confirmation. With two decks
  or more, the message of the confirmation reads \<open>deckToDelete.name\<close>, which throws
  when no deck has the id. After the removal, \<open>updatedDecks[0].id\<close> throws when the
  active deck was removed and no deck remains; the deck list and the stored item are
  already updated then.
\<close>

definition deleteDeck :: "env \<Rightarrow> jstring \<Rightarrow> button \<Rightarrow> app \<Rightarrow> outcome \<times> app" where
  "deleteDeck e deckId b s =
     (if length (decks s) \<le> 1 then
        (Alert ''Cannot Delete'' ''You must have at least one deck'', s)
      else case find (\<lambda>d. deck_id d = deckId) (decks s) of
        None \<Rightarrow> (TypeError, s)
      | Some deckToDelete \<Rightarrow>
          (case b of
             Cancel \<Rightarrow> (Cancelled, s)
           | Delete \<Rightarrow>
               let updatedDecks = filter (\<lambda>d. deck_id d \<noteq> deckId) (decks s);
                   s1 = s\<lparr>decks := updatedDecks, disk := saveData e updatedDecks (disk s)\<rparr>
               in if currentDeck s = deckId then
                    (case updatedDecks of
                       [] \<Rightarrow> (TypeError, s1)
                     | d # _ \<Rightarrow>
                         (Success, s1\<lparr>currentDeck := deck_id d, flashcards := cards_of d\<rparr>))
                  else (Success, s1)))"

definition switchDeck :: "jstring \<Rightarrow> app \<Rightarrow> app" where
  "switchDeck deckId s =
     (let s1 = s\<lparr>currentDeck := deckId\<rparr>
      in case find (\<lambda>d. deck_id d = deckId) (decks s) of
           None \<Rightarrow> s1
         | Some selectedDeck \<Rightarrow> s1\<lparr>flashcards := cards_of selectedDeck\<rparr>)"

definition getCurrentDeckName :: "app \<Rightarrow> jstring" where
  "getCurrentDeckName s =
     (case find (\<lambda>d. deck_id d = currentDeck s) (decks s) of
        None \<Rightarrow> js ''My Cards''
      | Some d \<Rightarrow> deck_name d)"

section \<open>Cards\<close>

definition saveCard :: "env \<Rightarrow> app \<Rightarrow> outcome \<times> app" where
  "saveCard e s =
     (if trim (question s) = [] \<or> trim (answer s) = [] then
        (Alert ''Error'' ''Please fill in both question and answer'', s)
      else
        let newCard = \<lparr>card_id = now e, card_question = trim (question s),
                       card_answer = trim (answer s), createdAt = iso e\<rparr>;
            updatedDecks =
              map (\<lambda>d. if deck_id d = currentDeck s
                        then d\<lparr>cards := Some (cards_of d @ [newCard])\<rparr> else d) (decks s)
        in (Success,
            s\<lparr>decks := updatedDecks, disk := saveData e updatedDecks (disk s),
              flashcards := flashcards s @ [newCard], question := [], answer := []\<rparr>))"

definition deleteCard :: "env \<Rightarrow> nat \<Rightarrow> button \<Rightarrow> app \<Rightarrow> outcome \<times> app" where
  "deleteCard e cardId b s =
     (case b of
        Cancel \<Rightarrow> (Cancelled, s)
      | Delete \<Rightarrow>
          let updatedDecks =
                map (\<lambda>d. if deck_id d = currentDeck s
                          then d\<lparr>cards := Some (filter (\<lambda>c. card_id c \<noteq> cardId) (cards_of d))\<rparr>
                          else d) (decks s);
              updatedCards = filter (\<lambda>c. card_id c \<noteq> cardId) (flashcards s)
          in (Success,
              s\<lparr>decks := updatedDecks, disk := saveData e updatedDecks (disk s),
                flashcards := updatedCards\<rparr>))"

section \<open>Study mode\<close>

definition studyCards :: "app \<Rightarrow> outcome \<times> app" where
  "studyCards s =
     (if length (flashcards s) = 0 then
        (Alert ''No Cards'' ''Add some flashcards first!'', s)
      else (Success, s\<lparr>studyMode := True, currentCardIndex := 0, showAnswer := False\<rparr>))"

definition flipCard :: "app \<Rightarrow> app" where
  "flipCard s = s\<lparr>showAnswer := \<not> showAnswer s\<rparr>"

text \<open>The comparison is over the integers: \<open>flashcards.length - 1\<close> is \<open>-1\<close> on no cards.\<close>

definition nextCard :: "app \<Rightarrow> app" where
  "nextCard s =
     (if int (currentCardIndex s) < int (length (flashcards s)) - 1 then
        s\<lparr>currentCardIndex := currentCardIndex s + 1, showAnswer := False\<rparr>
      else s\<lparr>studyMode := False\<rparr>)"

definition exitStudy :: "app \<Rightarrow> app" where
  "exitStudy s = s\<lparr>studyMode := False\<rparr>"

section \<open>Runs of the app\<close>

text \<open>
  The gestures of the user. \<open>CreateDeck name\<close> types \<open>name\<close> into the field of the
  deck modal and submits it; \<open>AddCard q a\<close> fills both fields of the card modal and
  presses Save; \<open>DeleteDeck\<close> and \<open>DeleteCard\<close> carry the button pressed in the
  confirmation; \<open>Launch\<close> starts the app again over the storage as it is. A step gives
  \<open>None\<close> when the launch ends with the component unmounted; the run ends there.
\<close>

datatype event =
    Launch
  | CreateDeck jstring
  | DeleteDeck jstring button
  | SwitchDeck jstring
  | AddCard jstring jstring
  | DeleteCard nat button
  | StudyCards
  | FlipCard
  | NextCard
  | ExitStudy

fun step :: "env \<Rightarrow> event \<Rightarrow> app \<Rightarrow> app option" where
  "step e Launch s = launch e (disk s)"
| "step e (CreateDeck name) s = Some (snd (createDeck e (s\<lparr>newDeckName := name\<rparr>)))"
| "step e (DeleteDeck deckId b) s = Some (snd (deleteDeck e deckId b s))"
| "step e (SwitchDeck deckId) s = Some (switchDeck deckId s)"
| "step e (AddCard q a) s = Some (snd (saveCard e (s\<lparr>question := q, answer := a\<rparr>)))"
| "step e (DeleteCard cardId b) s = Some (snd (deleteCard e cardId b s))"
| "step e StudyCards s = Some (snd (studyCards s))"
| "step e FlipCard s = Some (flipCard s)"
| "step e NextCard s = Some (nextCard s)"
| "step e ExitStudy s = Some (exitStudy s)"

fun run :: "(env \<times> event) list \<Rightarrow> app \<Rightarrow> app option" where
  "run [] s = Some s"
| "run ((e, ev) # evs) s = (case step e ev s of None \<Rightarrow> None | Some t \<Rightarrow> run evs t)"

text \<open>The app as first installed: nothing stored, the state variables at their initial values.\<close>

definition fresh_install :: app where
  "fresh_install = initial Absent"

text \<open>
  A sample environment within the first second after the epoch: the clock reads \<open>t\<close>
  milliseconds, for \<open>t < 1000\<close>, the storage works, and the text is Latin-1.
\<close>

definition at_time :: "nat \<Rightarrow> env" where
  "at_time t =
     \<lparr>now = t,
      iso = js ''1970-01-01T00:00:00.'' @
            (if t < 10 then js ''00'' else if t < 100 then js ''0'' else []) @ toString t @
            js ''Z'',
      write_ok = True, read_ok = True, toLowerCase = latin1_toLowerCase\<rparr>"

section \<open>Deck ids\<close>

text \<open>
  The id of a new deck is the text of the clock reading at its creation. \<open>decks_ok\<close>
  holds when the deck list is not empty and no two of its decks share an id, and the
  stored array, if there is one, holds deck objects no two of which share an id. A run
  has fresh ids when no \<open>CreateDeck\<close> of it reads a clock value whose text is the id of
  a deck in the list at that moment.
\<close>

definition stored_ok :: "stored \<Rightarrow> bool" where
  "stored_ok st =
     (case st of
        Saved xs \<Rightarrow> (case objects xs of None \<Rightarrow> False | Some ds \<Rightarrow> distinct (map deck_id ds))
      | _ \<Rightarrow> True)"

definition decks_ok :: "app \<Rightarrow> bool" where
  "decks_ok s = (decks s \<noteq> [] \<and> distinct (map deck_id (decks s)) \<and> stored_ok (disk s))"

fun fresh_id :: "env \<Rightarrow> event \<Rightarrow> app \<Rightarrow> bool" where
  "fresh_id e (CreateDeck name) s = (toString (now e) \<notin> set (map deck_id (decks s)))"
| "fresh_id e ev s = True"

fun fresh_ids :: "(env \<times> event) list \<Rightarrow> app \<Rightarrow> bool" where
  "fresh_ids [] s = True"
| "fresh_ids ((e, ev) # evs) s =
     (fresh_id e ev s \<and> (case step e ev s of None \<Rightarrow> True | Some t \<Rightarrow> fresh_ids evs t))"

section \<open>The active deck and the card list\<close>

text \<open>
  \<open>active_ok\<close>: the active deck id is the id of a deck of the list. \<open>mirrors\<close>: the
  card list is the cards of the first deck with the active deck id, and when no deck has
  that id, the id is \<open>default\<close>. An event is offered when the deck tab it presses
  exists: the deck selector renders one tab per deck of the list, so \<open>switchDeck\<close> is
  only called with the id of a deck of the list.
\<close>

definition active_ok :: "app \<Rightarrow> bool" where
  "active_ok s = (currentDeck s \<in> set (map deck_id (decks s)))"

definition mirrors :: "app \<Rightarrow> bool" where
  "mirrors s =
     ((case find (\<lambda>d. deck_id d = currentDeck s) (decks s) of
         None \<Rightarrow> currentDeck s = js ''default''
       | Some d \<Rightarrow> flashcards s = cards_of d))"

fun offered :: "event \<Rightarrow> app \<Rightarrow> bool" where
  "offered (SwitchDeck deckId) s = (deckId \<in> set (map deck_id (decks s)))"
| "offered ev s = True"

fun offered_ids :: "(env \<times> event) list \<Rightarrow> app \<Rightarrow> bool" where
  "offered_ids [] s = True"
| "offered_ids ((e, ev) # evs) s =
     (offered ev s \<and> (case step e ev s of None \<Rightarrow> True | Some t \<Rightarrow> offered_ids evs t))"

section \<open>Lemmas\<close>

subsection \<open>Lists\<close>

lemma filter_absent: "a \<notin> f ` set xs \<Longrightarrow> filter (\<lambda>x. f x \<noteq> a) xs = xs"
  by (induction xs) auto

lemma filter_distinct_length:
  "distinct (map f xs) \<Longrightarrow> length xs \<le> Suc (length (filter (\<lambda>x. f x \<noteq> a) xs))"
  by (induction xs) (auto simp: filter_absent)

lemma filter_not_empty:
  assumes "distinct (map f xs)" and "1 < length xs"
  shows "filter (\<lambda>x. f x \<noteq> a) xs \<noteq> []"
  using filter_distinct_length [OF assms(1), of a] assms(2) by auto

lemma find_map_update:
  "(\<And>d. P (g d) = P d) \<Longrightarrow>
   find P (map (\<lambda>d. if P d then g d else d) xs) = map_option g (find P xs)"
  by (induction xs) auto

lemma find_appended:
  "a \<notin> f ` set cs \<Longrightarrow> f c = a \<Longrightarrow> find (\<lambda>x. f x = a) (cs @ [c]) = Some c"
  by (induction cs) auto

lemma find_appended_list:
  "find P (xs @ ys) = (case find P xs of None \<Rightarrow> find P ys | Some x \<Rightarrow> Some x)"
  by (induction xs) auto

subsection \<open>Stored arrays\<close>

lemma objects_map_Object [simp]: "objects (map Object ds) = Some ds"
  by (induction ds) simp_all

lemma objects_None_iff: "(objects xs = None) = (Null \<in> set xs)"
  by (induction xs rule: objects.induct) auto

lemma objects_length: "objects xs = Some ds \<Longrightarrow> length ds = length xs"
  by (induction xs arbitrary: ds rule: objects.induct) auto

subsection \<open>Cards of a deck\<close>

lemma cards_of_update [simp]: "cards_of (d\<lparr>cards := Some cs\<rparr>) = cs"
  by (simp add: cards_of_def)

lemma ids_map_cards:
  "map deck_id (map (\<lambda>d. if P d then d\<lparr>cards := g d\<rparr> else d) ds) = map deck_id ds"
  by (induction ds) auto

lemma filter_cards_twice:
  "map (\<lambda>d. if deck_id d = c then d\<lparr>cards := Some (filter p (cards_of d))\<rparr> else d)
     (map (\<lambda>d. if deck_id d = c then d\<lparr>cards := Some (filter p (cards_of d))\<rparr> else d) ds) =
   map (\<lambda>d. if deck_id d = c then d\<lparr>cards := Some (filter p (cards_of d))\<rparr> else d) ds"
  by (induction ds) simp_all

lemma filter_cards_absent:
  "\<forall>d \<in> set ds. deck_id d = c \<longrightarrow> (\<exists>cs. cards d = Some cs \<and> a \<notin> card_id ` set cs) \<Longrightarrow>
   map (\<lambda>d. if deck_id d = c
            then d\<lparr>cards := Some (filter (\<lambda>x. card_id x \<noteq> a) (cards_of d))\<rparr> else d) ds = ds"
  by (induction ds) (auto simp: cards_of_def filter_absent)

lemma find_None_iff_ids: "(find (\<lambda>d. deck_id d = i) ds = None) = (i \<notin> set (map deck_id ds))"
  by (induction ds) auto

lemma find_filter_other:
  "i \<noteq> j \<Longrightarrow>
   find (\<lambda>d. deck_id d = i) (filter (\<lambda>d. deck_id d \<noteq> j) ds) = find (\<lambda>d. deck_id d = i) ds"
  by (induction ds) auto

subsection \<open>Every operation keeps the deck list in order\<close>

lemma stored_ok_saveData:
  "stored_ok st \<Longrightarrow> distinct (map deck_id ds) \<Longrightarrow> stored_ok (saveData e ds st)"
  by (simp add: saveData_def stored_ok_def)

lemma decks_ok_resetToDefault: "stored_ok (disk s) \<Longrightarrow> decks_ok (resetToDefault e s)"
  by (simp add: decks_ok_def resetToDefault_def stored_ok_saveData defaultDecks_def)

lemma decks_ok_taken_over:
  assumes "decks_ok s" and "disk s = Saved xs" and "objects xs = Some ds" and "ds \<noteq> []"
  shows "decks_ok (case find (\<lambda>d. deck_id d = currentDeck s) ds of
                       None \<Rightarrow> s\<lparr>decks := ds\<rparr>
                     | Some d \<Rightarrow> (case cards d of None \<Rightarrow> s\<lparr>decks := ds\<rparr>
                                  | Some cs \<Rightarrow> s\<lparr>decks := ds, flashcards := cs\<rparr>))"
  using assms by (simp add: decks_ok_def stored_ok_def split: option.splits)

lemma decks_ok_loadData:
  assumes u: "decks_ok s"
  shows "\<exists>r t. loadData e s = Mounted r t \<and> decks_ok t"
proof -
  from u have so: "stored_ok (disk s)" by (simp add: decks_ok_def)
  then have r: "decks_ok (resetToDefault e s)" by (rule decks_ok_resetToDefault)
  show ?thesis
  proof (cases "disk s")
    case (Saved xs)
    from so Saved obtain ds where ds: "objects xs = Some ds"
      by (auto simp: stored_ok_def split: option.splits)
    have "ds \<noteq> []" if "xs \<noteq> []" using objects_length [OF ds] that by auto
    then show ?thesis using u r Saved ds decks_ok_taken_over [OF u Saved ds]
      by (auto simp: loadData_def Let_def)
  qed (use u r in \<open>simp_all add: loadData_def\<close>)
qed

lemma decks_ok_load: "decks_ok s \<Longrightarrow> \<exists>t. load e s = Some t \<and> decks_ok t"
proof -
  assume u: "decks_ok s"
  from decks_ok_loadData [OF u, of e] obtain r s1
    where l: "loadData e s = Mounted r s1" and u1: "decks_ok s1" by blast
  then have "stored_ok (disk s1)" by (simp add: decks_ok_def)
  then have "decks_ok (resetToDefault e s1)" by (rule decks_ok_resetToDefault)
  with u1 l show ?thesis by (cases r) (simp_all add: load_def)
qed

lemma decks_ok_launch: "stored_ok st \<Longrightarrow> \<exists>t. launch e st = Some t \<and> decks_ok t"
  unfolding launch_def by (rule decks_ok_load) (simp add: decks_ok_def initial_def defaultDecks_def)

lemma decks_ok_createDeck:
  "decks_ok s \<Longrightarrow> toString (now e) \<notin> set (map deck_id (decks s)) \<Longrightarrow>
   decks_ok (snd (createDeck e s))"
  by (auto simp: createDeck_def decks_ok_def Let_def stored_ok_saveData)

lemma decks_ok_deleteDeck: "decks_ok s \<Longrightarrow> decks_ok (snd (deleteDeck e deckId b s))"
proof -
  assume u: "decks_ok s"
  let ?u = "filter (\<lambda>d. deck_id d \<noteq> deckId) (decks s)"
  have d: "distinct (map deck_id ?u)" using u by (simp add: decks_ok_def distinct_map_filter)
  have n: "1 < length (decks s) \<Longrightarrow> ?u \<noteq> []"
    using u by (simp add: decks_ok_def filter_not_empty)
  show ?thesis using u d n
    by (auto simp: deleteDeck_def decks_ok_def Let_def stored_ok_saveData not_le
        split: option.splits button.splits list.splits)
qed

lemma decks_ok_saveCard: "decks_ok s \<Longrightarrow> decks_ok (snd (saveCard e s))"
  by (auto simp: saveCard_def decks_ok_def Let_def stored_ok_saveData ids_map_cards
      simp del: map_map)

lemma decks_ok_deleteCard: "decks_ok s \<Longrightarrow> decks_ok (snd (deleteCard e c b s))"
  by (auto simp: deleteCard_def decks_ok_def Let_def stored_ok_saveData ids_map_cards
      simp del: map_map split: button.splits)

lemma decks_ok_switchDeck: "decks_ok s \<Longrightarrow> decks_ok (switchDeck i s)"
  by (auto simp: switchDeck_def decks_ok_def Let_def split: option.splits)

lemma decks_ok_step:
  assumes u: "decks_ok s" and f: "fresh_id e ev s"
  shows "\<exists>t. step e ev s = Some t \<and> decks_ok t"
proof (cases ev)
  case Launch
  from u have "stored_ok (disk s)" by (simp add: decks_ok_def)
  then show ?thesis using Launch by (simp add: decks_ok_launch)
next
  case (CreateDeck name)
  have "decks_ok (s\<lparr>newDeckName := name\<rparr>)" using u by (simp add: decks_ok_def)
  moreover have "toString (now e) \<notin> set (map deck_id (decks (s\<lparr>newDeckName := name\<rparr>)))"
    using f CreateDeck by simp
  ultimately show ?thesis using CreateDeck by (simp add: decks_ok_createDeck)
next
  case (DeleteDeck deckId b)
  then show ?thesis using u by (simp add: decks_ok_deleteDeck)
next
  case (SwitchDeck deckId)
  then show ?thesis using u by (simp add: decks_ok_switchDeck)
next
  case (AddCard q a)
  have "decks_ok (s\<lparr>question := q, answer := a\<rparr>)" using u by (simp add: decks_ok_def)
  then show ?thesis using AddCard by (simp add: decks_ok_saveCard)
next
  case (DeleteCard cardId b)
  then show ?thesis using u by (simp add: decks_ok_deleteCard)
next
  case StudyCards
  then show ?thesis using u by (simp add: studyCards_def decks_ok_def)
next
  case FlipCard
  then show ?thesis using u by (simp add: flipCard_def decks_ok_def)
next
  case NextCard
  then show ?thesis using u by (simp add: nextCard_def decks_ok_def)
next
  case ExitStudy
  then show ?thesis using u by (simp add: exitStudy_def decks_ok_def)
qed

lemma decks_ok_run:
  "decks_ok s \<Longrightarrow> fresh_ids evs s \<Longrightarrow> \<exists>t. run evs s = Some t \<and> decks_ok t"
proof (induction evs arbitrary: s)
  case Nil
  then show ?case by simp
next
  case (Cons x evs)
  obtain e ev where x: "x = (e, ev)" by (cases x)
  from Cons.prems x obtain t where t: "step e ev s = Some t" "decks_ok t"
    using decks_ok_step [of s e ev] by auto
  then show ?case using Cons.IH [of t] Cons.prems x by simp
qed

lemma step_keeps_deck_count:
  "case ev of
     Launch \<Rightarrow> True
   | DeleteDeck deckId b \<Rightarrow> True
   | _ \<Rightarrow> (\<exists>t. step e ev s = Some t \<and> length (decks s) \<le> length (decks t))"
  by (cases ev)
     (simp_all add: createDeck_def switchDeck_def saveCard_def deleteCard_def studyCards_def
        flipCard_def nextCard_def exitStudy_def Let_def split: option.splits button.splits)

lemma deleteDeck_last_deck:
  "length (decks s) \<le> 1 \<Longrightarrow>
   deleteDeck e deckId b s = (Alert ''Cannot Delete'' ''You must have at least one deck'', s)"
  by (simp add: deleteDeck_def)

lemma launch_not_empty: "launch e st = Some t \<Longrightarrow> 1 \<le> length (decks t)"
  by (auto simp: launch_def load_def loadData_def resetToDefault_def initial_def defaultDecks_def
      Let_def Suc_le_eq dest: objects_length split: stored.splits option.splits if_splits)

subsection \<open>The text of a number is not the id of the default deck\<close>

lemma last_toString: "last (toString n) = digit (n mod 10)"
  by (subst toString.simps) simp

lemma toString_not_default: "toString n \<noteq> js ''default''"
proof
  assume "toString n = js ''default''"
  then have "last (toString n) = 116" by (simp add: js_def)
  then have "digit (n mod 10) = 116" by (simp add: last_toString)
  then have "unat (digit (n mod 10)) = 116" by simp
  moreover have "unat (digit (n mod 10)) = 48 + n mod 10"
    unfolding digit_def by (rule of_nat_inverse [OF refl]) simp
  ultimately show False by simp
qed

subsection \<open>The operations other than a launch keep the active deck\<close>

lemma saveCard_ids:
  "map deck_id (decks (snd (saveCard e s))) = map deck_id (decks s) \<and>
   currentDeck (snd (saveCard e s)) = currentDeck s"
  by (simp add: saveCard_def Let_def ids_map_cards del: map_map)

lemma deleteCard_ids:
  "map deck_id (decks (snd (deleteCard e cardId b s))) = map deck_id (decks s) \<and>
   currentDeck (snd (deleteCard e cardId b s)) = currentDeck s"
  by (simp add: deleteCard_def Let_def ids_map_cards del: map_map split: button.splits)

lemma active_deck_kept:
  assumes "decks_ok s" and "active_ok s" and "offered ev s" and "ev \<noteq> Launch"
  shows "\<exists>t. step e ev s = Some t \<and> active_ok t"
proof (cases ev)
  case (DeleteDeck deckId b)
  have "1 < length (decks s) \<Longrightarrow> filter (\<lambda>d. deck_id d \<noteq> deckId) (decks s) \<noteq> []"
    using assms(1) by (simp add: decks_ok_def filter_not_empty)
  then show ?thesis using DeleteDeck assms(2)
    by (auto simp: active_ok_def deleteDeck_def Let_def not_le
        split: option.splits button.splits list.splits)
next
  case (AddCard q a)
  then show ?thesis using assms(2) saveCard_ids [of e "s\<lparr>question := q, answer := a\<rparr>"]
    by (simp add: active_ok_def del: set_map)
next
  case (DeleteCard cardId b)
  then show ?thesis using assms(2) deleteCard_ids [of e cardId b s]
    by (simp add: active_ok_def del: set_map)
qed (use assms in \<open>auto simp: active_ok_def createDeck_def switchDeck_def
       studyCards_def flipCard_def nextCard_def exitStudy_def Let_def
       split: option.splits\<close>)

lemma deleteDeck_active_repoints:
  assumes "decks_ok s" and "1 < length (decks s)" and "currentDeck s = deckId"
    and "deckId \<in> set (map deck_id (decks s))"
  shows "\<exists>d rest. filter (\<lambda>d. deck_id d \<noteq> deckId) (decks s) = d # rest \<and>
           fst (deleteDeck e deckId Delete s) = Success \<and>
           decks (snd (deleteDeck e deckId Delete s)) = d # rest \<and>
           currentDeck (snd (deleteDeck e deckId Delete s)) = deck_id d \<and>
           flashcards (snd (deleteDeck e deckId Delete s)) = cards_of d"
proof -
  have "filter (\<lambda>d. deck_id d \<noteq> deckId) (decks s) \<noteq> []"
    using assms(1,2) by (simp add: decks_ok_def filter_not_empty)
  then obtain d rest where f: "filter (\<lambda>d. deck_id d \<noteq> deckId) (decks s) = d # rest"
    by (cases "filter (\<lambda>d. deck_id d \<noteq> deckId) (decks s)") auto
  obtain x where "find (\<lambda>d. deck_id d = deckId) (decks s) = Some x"
    using assms(4) by (cases "find (\<lambda>d. deck_id d = deckId) (decks s)")
      (auto simp: find_None_iff_ids)
  then show ?thesis using f assms(2,3) by (simp add: deleteDeck_def Let_def)
qed

lemma active_ok_run:
  "decks_ok s \<Longrightarrow> active_ok s \<Longrightarrow> fresh_ids evs s \<Longrightarrow> offered_ids evs s \<Longrightarrow>
   Launch \<notin> set (map snd evs) \<Longrightarrow> \<exists>t. run evs s = Some t \<and> decks_ok t \<and> active_ok t"
proof (induction evs arbitrary: s)
  case Nil
  then show ?case by simp
next
  case (Cons x evs)
  obtain e ev where x: "x = (e, ev)" by (cases x)
  obtain t where t: "step e ev s = Some t" "decks_ok t"
    using decks_ok_step [of s e ev] Cons.prems x by auto
  moreover have "active_ok t"
    using active_deck_kept [of s ev e] Cons.prems x t(1) by auto
  ultimately show ?case using Cons.IH [of t] Cons.prems x by simp
qed

subsection \<open>The card list follows the active deck while there is one\<close>

lemma mirrors_launch: "launch e st = Some t \<Longrightarrow> mirrors t"
  by (auto simp: mirrors_def launch_def load_def loadData_def resetToDefault_def initial_def
      defaultDecks_def cards_of_def Let_def js_def
      split: stored.splits option.splits if_splits)

lemma mirrors_createDeck: "mirrors s \<Longrightarrow> mirrors (snd (createDeck e s))"
  by (auto simp: mirrors_def createDeck_def Let_def find_appended_list toString_not_default
      cards_of_def split: option.splits)

lemma mirrors_deleteDeck:
  assumes "decks_ok s" and "mirrors s"
  shows "mirrors (snd (deleteDeck e deckId b s))"
proof -
  have "1 < length (decks s) \<Longrightarrow> filter (\<lambda>d. deck_id d \<noteq> deckId) (decks s) \<noteq> []"
    using assms(1) by (simp add: decks_ok_def filter_not_empty)
  then show ?thesis using assms(2)
    by (auto simp: mirrors_def deleteDeck_def Let_def find_filter_other not_le
        split: option.splits button.splits list.splits)
qed

lemma mirrors_switchDeck:
  "deckId \<in> set (map deck_id (decks s)) \<Longrightarrow> mirrors (switchDeck deckId s)"
  by (auto simp: mirrors_def switchDeck_def Let_def find_None_iff_ids split: option.splits)

lemma mirrors_saveCard: "mirrors s \<Longrightarrow> mirrors (snd (saveCard e s))"
proof -
  assume m: "mirrors s"
  let ?c = "\<lparr>card_id = now e, card_question = trim (question s), card_answer = trim (answer s),
             createdAt = iso e\<rparr>"
  have "find (\<lambda>d. deck_id d = currentDeck s)
          (map (\<lambda>d. if deck_id d = currentDeck s
                    then d\<lparr>cards := Some (cards_of d @ [?c])\<rparr> else d)
             (decks s)) =
        map_option (\<lambda>d. d\<lparr>cards := Some (cards_of d @ [?c])\<rparr>)
          (find (\<lambda>d. deck_id d = currentDeck s) (decks s))"
    by (rule find_map_update) simp
  then show ?thesis using m
    by (auto simp: mirrors_def saveCard_def Let_def split: option.splits)
qed

lemma mirrors_deleteCard: "mirrors s \<Longrightarrow> mirrors (snd (deleteCard e cardId b s))"
proof -
  assume m: "mirrors s"
  let ?p = "\<lambda>c. card_id c \<noteq> cardId"
  have "find (\<lambda>d. deck_id d = currentDeck s)
          (map (\<lambda>d. if deck_id d = currentDeck s
                    then d\<lparr>cards := Some (filter ?p (cards_of d))\<rparr> else d)
             (decks s)) =
        map_option (\<lambda>d. d\<lparr>cards := Some (filter ?p (cards_of d))\<rparr>)
          (find (\<lambda>d. deck_id d = currentDeck s) (decks s))"
    by (rule find_map_update) simp
  then show ?thesis using m
    by (auto simp: mirrors_def deleteCard_def Let_def split: option.splits button.splits)
qed

lemma mirrors_step:
  assumes "decks_ok s" and "mirrors s" and "offered ev s" and "step e ev s = Some t"
  shows "mirrors t"
proof (cases ev)
  case Launch
  then show ?thesis using assms(4) by (simp add: mirrors_launch)
next
  case (CreateDeck name)
  have "mirrors (s\<lparr>newDeckName := name\<rparr>)"
    using assms(2) by (simp add: mirrors_def split: option.splits)
  then show ?thesis using CreateDeck assms(4) by (auto simp: mirrors_createDeck)
next
  case (DeleteDeck deckId b)
  then show ?thesis using assms by (auto simp: mirrors_deleteDeck)
next
  case (SwitchDeck deckId)
  then show ?thesis using assms(3,4) by (auto simp: mirrors_switchDeck)
next
  case (AddCard q a)
  have "mirrors (s\<lparr>question := q, answer := a\<rparr>)"
    using assms(2) by (simp add: mirrors_def split: option.splits)
  then show ?thesis using AddCard assms(4) by (auto simp: mirrors_saveCard)
next
  case (DeleteCard cardId b)
  then show ?thesis using assms by (auto simp: mirrors_deleteCard)
next
  case StudyCards
  then have "decks t = decks s" "currentDeck t = currentDeck s" "flashcards t = flashcards s"
    using assms(4) by (auto simp: studyCards_def)
  then show ?thesis using assms(2) by (simp add: mirrors_def split: option.splits)
next
  case FlipCard
  then have "decks t = decks s" "currentDeck t = currentDeck s" "flashcards t = flashcards s"
    using assms(4) by (auto simp: flipCard_def)
  then show ?thesis using assms(2) by (simp add: mirrors_def split: option.splits)
next
  case NextCard
  then have "decks t = decks s" "currentDeck t = currentDeck s" "flashcards t = flashcards s"
    using assms(4) by (auto simp: nextCard_def)
  then show ?thesis using assms(2) by (simp add: mirrors_def split: option.splits)
next
  case ExitStudy
  then have "decks t = decks s" "currentDeck t = currentDeck s" "flashcards t = flashcards s"
    using assms(4) by (auto simp: exitStudy_def)
  then show ?thesis using assms(2) by (simp add: mirrors_def split: option.splits)
qed

lemma mirrors_run:
  "decks_ok s \<Longrightarrow> mirrors s \<Longrightarrow> fresh_ids evs s \<Longrightarrow> offered_ids evs s \<Longrightarrow>
   \<exists>t. run evs s = Some t \<and> mirrors t"
proof (induction evs arbitrary: s)
  case Nil
  then show ?case by simp
next
  case (Cons x evs)
  obtain e ev where x: "x = (e, ev)" by (cases x)
  obtain t where t: "step e ev s = Some t" "decks_ok t"
    using decks_ok_step [of s e ev] Cons.prems x by auto
  moreover have "mirrors t"
    using mirrors_step [of s ev e t] Cons.prems x t(1) by auto
  ultimately show ?case using Cons.IH [of t] Cons.prems x by simp
qed

subsection \<open>Adding a card to the active deck\<close>

lemma saveCard_adds_to_active_deck:
  assumes "trim q \<noteq> []" and "trim a \<noteq> []"
    and "find (\<lambda>d. deck_id d = currentDeck s) (decks s) = Some d"
  shows "\<exists>d'. find (\<lambda>d. deck_id d = currentDeck s)
                (decks (snd (saveCard e (s\<lparr>question := q, answer := a\<rparr>)))) = Some d' \<and>
              cards_of d' =
                cards_of d @ [\<lparr>card_id = now e, card_question = trim q, card_answer = trim a,
                               createdAt = iso e\<rparr>]"
proof -
  let ?c = "\<lparr>card_id = now e, card_question = trim q, card_answer = trim a, createdAt = iso e\<rparr>"
  let ?g = "\<lambda>d. d\<lparr>cards := Some (cards_of d @ [?c])\<rparr>"
  let ?P = "\<lambda>d. deck_id d = currentDeck s"
  let ?r = "saveCard e (s\<lparr>question := q, answer := a\<rparr>)"
  have r: "decks (snd ?r) = map (\<lambda>d. if ?P d then ?g d else d) (decks s)"
    using assms(1,2) by (simp add: saveCard_def Let_def)
  have "find ?P (decks (snd ?r)) = map_option ?g (find ?P (decks s))"
    unfolding r by (rule find_map_update) simp
  then show ?thesis using assms(3) by simp
qed

subsection \<open>Study mode\<close>

lemma nextCard_flashcards [simp]: "flashcards (nextCard s) = flashcards s"
  by (simp add: nextCard_def)

lemma funpow_nextCard_flashcards [simp]: "flashcards ((nextCard ^^ k) s) = flashcards s"
  by (induction k) simp_all

lemma nextCard_walk:
  "studyMode s \<Longrightarrow> currentCardIndex s = 0 \<Longrightarrow> k < length (flashcards s) \<Longrightarrow>
   studyMode ((nextCard ^^ k) s) \<and> currentCardIndex ((nextCard ^^ k) s) = k"
  by (induction k) (auto simp: nextCard_def)

lemma nextCard_last:
  "currentCardIndex s + 1 = length (flashcards s) \<Longrightarrow> \<not> studyMode (nextCard s)"
  by (simp add: nextCard_def)

section \<open>The claims\<close>

subsection \<open>C1: the active deck id after every operation\<close>

text \<open>
  C1 says that after every operation the active deck id is the id of a deck of the deck
  list. Two operations do not keep this. \<open>switchDeck\<close> with an id that matches no deck
  makes that id the active one (here the id \<open>6\<close>, when the decks are \<open>default\<close> and
  \<open>5\<close>). And \<open>loadData\<close> takes over the stored decks and leaves
  \<open>currentDeck\<close> at its initial value: on a fresh installation, create a deck (the clock
  reads 5), delete the deck \<open>default\<close> (which makes the new deck the active one) and
  start the app again; the deck list is then the stored one, with the single id \<open>5\<close>,
  and the active deck id is \<open>default\<close>, the id of no deck.
\<close>

theorem active_deck_counterexample:
  "(case run [(at_time 5, CreateDeck (js ''Math''))] fresh_install of
      None \<Rightarrow> False
    | Some t \<Rightarrow> active_ok t \<and> \<not> active_ok (switchDeck (js ''6'') t)) \<and>
   (case run [(at_time 5, CreateDeck (js ''Math'')),
              (at_time 6, DeleteDeck (js ''default'') Delete),
              (at_time 7, Launch)] fresh_install of
      None \<Rightarrow> False
    | Some t \<Rightarrow> \<not> active_ok t)"
  by code_simp

text \<open>
  C1 as the code has it, for the operations other than \<open>loadData\<close>. From a state whose
  deck ids are unique and whose active deck id names a deck, every run without a
  launch, with fresh ids, in which \<open>switchDeck\<close> gets ids of the list, goes through,
  and the active deck id names a deck after the run. Deleting the active deck then makes
  the first remaining deck the active one and shows its cards. And \<open>switchDeck\<close> with
  an id of no deck makes this id the active one, so that the active deck id names no
  deck.
\<close>

theorem active_deck_kept_run:
  assumes "decks_ok s" and "active_ok s" and "fresh_ids evs s" and "offered_ids evs s"
    and "Launch \<notin> set (map snd evs)"
  shows "\<exists>t. run evs s = Some t \<and> active_ok t \<and>
           (\<forall>e. 1 < length (decks t) \<longrightarrow>
              (\<exists>d rest.
                 filter (\<lambda>d. deck_id d \<noteq> currentDeck t) (decks t) = d # rest \<and>
                 decks (snd (deleteDeck e (currentDeck t) Delete t)) = d # rest \<and>
                 currentDeck (snd (deleteDeck e (currentDeck t) Delete t)) = deck_id d \<and>
                 flashcards (snd (deleteDeck e (currentDeck t) Delete t)) = cards_of d)) \<and>
           (\<forall>deckId. deckId \<notin> set (map deck_id (decks t)) \<longrightarrow>
              currentDeck (switchDeck deckId t) = deckId \<and>
              \<not> active_ok (switchDeck deckId t))"
proof -
  from active_ok_run [OF assms] obtain t
    where r: "run evs s = Some t" and d: "decks_ok t" and a: "active_ok t" by blast
  have "\<exists>d rest.
          filter (\<lambda>d. deck_id d \<noteq> currentDeck t) (decks t) = d # rest \<and>
          decks (snd (deleteDeck e (currentDeck t) Delete t)) = d # rest \<and>
          currentDeck (snd (deleteDeck e (currentDeck t) Delete t)) = deck_id d \<and>
          flashcards (snd (deleteDeck e (currentDeck t) Delete t)) = cards_of d"
    if "1 < length (decks t)" for e
    using deleteDeck_active_repoints [OF d that refl, of e] a
    by (auto simp: active_ok_def)
  moreover have "currentDeck (switchDeck deckId t) = deckId \<and> \<not> active_ok (switchDeck deckId t)"
    if "deckId \<notin> set (map deck_id (decks t))" for deckId
    using that by (simp add: switchDeck_def active_ok_def Let_def split: option.splits)
  ultimately show ?thesis using r a by blast
qed

theorem active_deck_kept_run_witness:
  "decks_ok fresh_install \<and> active_ok fresh_install \<and>
   fresh_ids [(at_time 5, CreateDeck (js ''Math'')), (at_time 6, SwitchDeck (js ''5''))]
     fresh_install \<and>
   offered_ids [(at_time 5, CreateDeck (js ''Math'')), (at_time 6, SwitchDeck (js ''5''))]
     fresh_install \<and>
   Launch \<notin> set (map snd [(at_time 5, CreateDeck (js ''Math'')),
                           (at_time 6, SwitchDeck (js ''5''))]) \<and>
   (case run [(at_time 5, CreateDeck (js ''Math'')), (at_time 6, SwitchDeck (js ''5''))]
           fresh_install of
      None \<Rightarrow> False
    | Some t \<Rightarrow>
        active_ok t \<and> currentDeck t = js ''5'' \<and>
        currentDeck (snd (deleteDeck (at_time 7) (js ''5'') Delete t)) = js ''default'' \<and>
        \<not> active_ok (switchDeck (js ''42'') t))"
proof -
  let ?evs = "[(at_time 5, CreateDeck (js ''Math'')), (at_time 6, SwitchDeck (js ''5''))]"
  have h: "decks_ok fresh_install" "active_ok fresh_install" "fresh_ids ?evs fresh_install"
    "offered_ids ?evs fresh_install" "Launch \<notin> set (map snd ?evs)"
    by code_simp+
  from active_deck_kept_run [OF h] obtain t where r: "run ?evs fresh_install = Some t"
    and 1: "active_ok t"
    and k2: "\<forall>e. 1 < length (decks t) \<longrightarrow>
              (\<exists>d rest.
                 filter (\<lambda>d. deck_id d \<noteq> currentDeck t) (decks t) = d # rest \<and>
                 decks (snd (deleteDeck e (currentDeck t) Delete t)) = d # rest \<and>
                 currentDeck (snd (deleteDeck e (currentDeck t) Delete t)) = deck_id d \<and>
                 flashcards (snd (deleteDeck e (currentDeck t) Delete t)) = cards_of d)"
    and k3: "\<forall>deckId. deckId \<notin> set (map deck_id (decks t)) \<longrightarrow>
              currentDeck (switchDeck deckId t) = deckId \<and>
              \<not> active_ok (switchDeck deckId t)"
    by blast
  have "map_option currentDeck (run ?evs fresh_install) = Some (js ''5'')" by code_simp
  then have c: "currentDeck t = js ''5''" unfolding r by simp
  have "map_option (\<lambda>t. length (decks t)) (run ?evs fresh_install) = Some 2" by code_simp
  then have l: "1 < length (decks t)" unfolding r by simp
  have "map_option (\<lambda>t. filter (\<lambda>d. deck_id d \<noteq> js ''5'') (decks t)) (run ?evs fresh_install) =
          Some [\<lparr>deck_id = js ''default'', deck_name = js ''My Cards'', cards = Some []\<rparr>]"
    by code_simp
  then have f: "filter (\<lambda>d. deck_id d \<noteq> js ''5'') (decks t) =
          [\<lparr>deck_id = js ''default'', deck_name = js ''My Cards'', cards = Some []\<rparr>]"
    unfolding r by simp
  have "map_option (\<lambda>t. js ''42'' \<in> set (map deck_id (decks t))) (run ?evs fresh_install) =
          Some False"
    by code_simp
  then have u: "js ''42'' \<notin> set (map deck_id (decks t))" unfolding r by simp
  from k2 l obtain d rest where
    "filter (\<lambda>d. deck_id d \<noteq> currentDeck t) (decks t) = d # rest"
    "currentDeck (snd (deleteDeck (at_time 7) (currentDeck t) Delete t)) = deck_id d"
    by blast
  then have 2: "currentDeck (snd (deleteDeck (at_time 7) (js ''5'') Delete t)) = js ''default''"
    unfolding c f by auto
  from k3 u have 3: "\<not> active_ok (switchDeck (js ''42'') t)" by blast
  show ?thesis unfolding r option.case using h 1 c 2 3 r by blast
qed

subsection \<open>C2: switching the active deck\<close>

text \<open>
  C2 says that \<open>switchDeck\<close> with an id that matches no deck changes nothing. It does
  change the active deck id: on the initial state, where the only deck is \<open>default\<close>,
  \<open>switchDeck\<close> with the id \<open>42\<close> makes \<open>42\<close> the active deck id.
\<close>

theorem switchDeck_unknown_id_counterexample:
  "find (\<lambda>d. deck_id d = js ''42'') (decks fresh_install) = None \<and>
   currentDeck fresh_install = js ''default'' \<and>
   currentDeck (switchDeck (js ''42'') fresh_install) = js ''42''"
  by code_simp

text \<open>
  C2 as the code has it: \<open>switchDeck\<close> always sets the active deck id to the given id
  and leaves the deck list and the stored item alone; when the id matches no deck the
  card list stays as it was, and when it matches, the card list becomes the cards of the
  first deck with that id.
\<close>

theorem switchDeck_sets_active_id:
  "currentDeck (switchDeck deckId s) = deckId \<and>
   decks (switchDeck deckId s) = decks s \<and>
   disk (switchDeck deckId s) = disk s \<and>
   flashcards (switchDeck deckId s) =
     (case find (\<lambda>d. deck_id d = deckId) (decks s) of
        None \<Rightarrow> flashcards s
      | Some selectedDeck \<Rightarrow> cards_of selectedDeck)"
  by (simp add: switchDeck_def Let_def split: option.splits)

subsection \<open>C3: the deck list is never empty\<close>

text \<open>
  C3: the deck count stays at least 1 along every run. From a state whose deck list is
  in order (\<open>decks_ok\<close>), every run with fresh ids goes through (each launch of it
  ends with the home screen rendered), and the deck list has at least one deck after the
  run; whenever it has exactly one, \<open>deleteDeck\<close> shows the alert \<open>Cannot Delete\<close>
  and changes nothing, whatever the id and the button; no event other than
  \<open>DeleteDeck\<close> and \<open>Launch\<close> makes the deck list shorter, and a launch that ends
  with the home screen rendered, over any storage, ends with at least one deck.
\<close>

theorem deck_list_never_empty:
  assumes "decks_ok s" and "fresh_ids evs s"
  shows "\<exists>t. run evs s = Some t \<and> 1 \<le> length (decks t) \<and>
           (\<forall>e deckId b. length (decks t) = 1 \<longrightarrow>
              deleteDeck e deckId b t =
                (Alert ''Cannot Delete'' ''You must have at least one deck'', t)) \<and>
           (\<forall>e ev u. case ev of
                        Launch \<Rightarrow> True
                      | DeleteDeck deckId b \<Rightarrow> True
                      | _ \<Rightarrow> (\<exists>u'. step e ev u = Some u' \<and>
                                    length (decks u) \<le> length (decks u'))) \<and>
           (\<forall>e st u. launch e st = Some u \<longrightarrow> 1 \<le> length (decks u))"
proof -
  from decks_ok_run [OF assms] obtain t where r: "run evs s = Some t" and d: "decks_ok t"
    by blast
  then have "decks t \<noteq> []" by (simp add: decks_ok_def)
  then have "1 \<le> length (decks t)" by (cases "decks t") simp_all
  then show ?thesis
    using r step_keeps_deck_count launch_not_empty by (simp add: deleteDeck_last_deck)
qed

theorem deck_list_never_empty_witness:
  "decks_ok fresh_install \<and>
   fresh_ids [(at_time 5, CreateDeck (js ''Math'')),
              (at_time 6, DeleteDeck (js ''default'') Delete),
              (at_time 7, Launch)] fresh_install \<and>
   (case run [(at_time 5, CreateDeck (js ''Math'')),
              (at_time 6, DeleteDeck (js ''default'') Delete),
              (at_time 7, Launch)] fresh_install of
      None \<Rightarrow> False
    | Some t \<Rightarrow>
        length (decks t) = 1 \<and>
        deleteDeck (at_time 8) (js ''5'') Delete t =
          (Alert ''Cannot Delete'' ''You must have at least one deck'', t))"
proof -
  let ?evs = "[(at_time 5, CreateDeck (js ''Math'')),
               (at_time 6, DeleteDeck (js ''default'') Delete),
               (at_time 7, Launch)]"
  have u: "decks_ok fresh_install" by code_simp
  have f: "fresh_ids ?evs fresh_install" by code_simp
  from deck_list_never_empty [OF u f] obtain t where r: "run ?evs fresh_install = Some t"
    and k: "\<forall>e deckId b. length (decks t) = 1 \<longrightarrow>
              deleteDeck e deckId b t =
                (Alert ''Cannot Delete'' ''You must have at least one deck'', t)"
    by blast
  have "map_option (\<lambda>t. length (decks t)) (run ?evs fresh_install) = Some 1" by code_simp
  then have l: "length (decks t) = 1" unfolding r by simp
  show ?thesis unfolding r option.case using u f l k r by blast
qed

subsection \<open>C4: creating a deck\<close>

text \<open>
  C4: \<open>createDeck\<close> on the name typed into the field. When the trimmed name is empty
  or some deck has a name with the same \<open>toLowerCase\<close> as the trimmed name, it shows
  an alert titled \<open>Error\<close> and the state stays as it was. Otherwise it appends one
  deck, with the trimmed name, no cards and the clock reading as id, to the end of the
  deck list, leaves the active deck id and the card list alone, and writes the new deck
  list to the storage (a failing write leaves the stored item as it was). This holds for
  every text, whatever \<open>toLowerCase\<close> is.
\<close>

theorem createDeck_validates_and_appends:
  "let s0 = s\<lparr>newDeckName := name\<rparr>; r = createDeck e s0
   in if trim name = [] \<or>
         list_ex (\<lambda>d. toLowerCase e (deck_name d) = toLowerCase e (trim name)) (decks s)
      then (\<exists>m. fst r = Alert ''Error'' m) \<and> snd r = s0
      else fst r = Success \<and>
           decks (snd r) =
             decks s @ [\<lparr>deck_id = toString (now e), deck_name = trim name, cards = Some []\<rparr>] \<and>
           currentDeck (snd r) = currentDeck s \<and>
           flashcards (snd r) = flashcards s \<and>
           disk (snd r) = (if write_ok e then Saved (map Object (decks (snd r))) else disk s)"
  by (simp add: createDeck_def Let_def saveData_def)

theorem createDeck_validates_and_appends_witness:
  "decks (snd (createDeck (at_time 5) (fresh_install\<lparr>newDeckName := js '' Math ''\<rparr>))) =
     [\<lparr>deck_id = js ''default'', deck_name = js ''My Cards'', cards = Some []\<rparr>,
      \<lparr>deck_id = js ''5'', deck_name = js ''Math'', cards = Some []\<rparr>] \<and>
   snd (createDeck (at_time 6) (fresh_install\<lparr>newDeckName := js ''my cards ''\<rparr>)) =
     fresh_install\<lparr>newDeckName := js ''my cards ''\<rparr> \<and>
   snd (createDeck (at_time 7) (fresh_install\<lparr>newDeckName := [0xA0, 0x2003]\<rparr>)) =
     fresh_install\<lparr>newDeckName := [0xA0, 0x2003]\<rparr>"
proof -
  have new: "\<not> (trim (js '' Math '') = [] \<or>
     list_ex (\<lambda>d. toLowerCase (at_time 5) (deck_name d) =
                  toLowerCase (at_time 5) (trim (js '' Math ''))) (decks fresh_install))"
    by code_simp
  have dup: "trim (js ''my cards '') = [] \<or>
     list_ex (\<lambda>d. toLowerCase (at_time 6) (deck_name d) =
                  toLowerCase (at_time 6) (trim (js ''my cards ''))) (decks fresh_install)"
    by code_simp
  have blank: "trim [0xA0, 0x2003] = [] \<or>
     list_ex (\<lambda>d. toLowerCase (at_time 7) (deck_name d) =
                  toLowerCase (at_time 7) (trim [0xA0, 0x2003])) (decks fresh_install)"
    by code_simp
  have v: "trim (js '' Math '') = js ''Math''" "toString (now (at_time 5)) = js ''5''"
    "decks fresh_install =
       [\<lparr>deck_id = js ''default'', deck_name = js ''My Cards'', cards = Some []\<rparr>]"
    by code_simp+
  from createDeck_validates_and_appends [where name = "js '' Math ''" and s = fresh_install
      and e = "at_time 5"] new
  have "decks (snd (createDeck (at_time 5) (fresh_install\<lparr>newDeckName := js '' Math ''\<rparr>))) =
     decks fresh_install @
       [\<lparr>deck_id = toString (now (at_time 5)), deck_name = trim (js '' Math ''),
          cards = Some []\<rparr>]"
    by (simp add: Let_def)
  moreover from createDeck_validates_and_appends [where name = "js ''my cards ''"
      and s = fresh_install and e = "at_time 6"] dup
  have "snd (createDeck (at_time 6) (fresh_install\<lparr>newDeckName := js ''my cards ''\<rparr>)) =
     fresh_install\<lparr>newDeckName := js ''my cards ''\<rparr>"
    by (simp add: Let_def)
  moreover from createDeck_validates_and_appends [where name = "[0xA0, 0x2003]"
      and s = fresh_install and e = "at_time 7"] blank
  have "snd (createDeck (at_time 7) (fresh_install\<lparr>newDeckName := [0xA0, 0x2003]\<rparr>)) =
     fresh_install\<lparr>newDeckName := [0xA0, 0x2003]\<rparr>"
    by (simp add: Let_def)
  ultimately show ?thesis by (simp add: v)
qed

subsection \<open>C5: loading at startup\<close>



subsection \<open>C6: adding a card\<close>

text \<open>
  C6 says that \<open>saveCard\<close> on a question and an answer that are not empty after
  trimming adds one card to the active deck. On a fresh installation, create a deck (the
  clock reads 5), delete the deck \<open>default\<close> and start the app again: \<open>loadData\<close>
  leaves the active deck id at \<open>default\<close>, the id of no deck. \<open>saveCard\<close> on
  \<open>2+2?\<close> and \<open>4\<close> then ends as a success, and no deck has changed: the only deck
  still has no cards, and the array written to the storage holds no card.

  Whenever the active deck id names a deck, that deck has its old cards followed by the
  new card afterwards (lemma \<open>saveCard_adds_to_active_deck\<close>).
\<close>

theorem card_added_after_relaunch_changes_no_deck:
  "case run [(at_time 5, CreateDeck (js ''Math'')),
             (at_time 6, DeleteDeck (js ''default'') Delete),
             (at_time 7, Launch)] fresh_install of
     None \<Rightarrow> False
   | Some t \<Rightarrow>
       trim (js ''2+2?'') \<noteq> [] \<and> trim (js ''4'') \<noteq> [] \<and>
       find (\<lambda>d. deck_id d = currentDeck t) (decks t) = None \<and>
       fst (saveCard (at_time 8) (t\<lparr>question := js ''2+2?'', answer := js ''4''\<rparr>)) = Success \<and>
       decks (snd (saveCard (at_time 8) (t\<lparr>question := js ''2+2?'', answer := js ''4''\<rparr>))) =
         decks t \<and>
       map cards_of (decks t) = [[]] \<and>
       disk (snd (saveCard (at_time 8) (t\<lparr>question := js ''2+2?'', answer := js ''4''\<rparr>))) =
         Saved [Object \<lparr>deck_id = js ''5'', deck_name = js ''Math'', cards = Some []\<rparr>]"
  by code_simp

subsection \<open>C7: deleting a card twice\<close>

text \<open>
  C7: \<open>deleteCard\<close> is idempotent. Deleting the same card id a second time, with the
  same button, leaves every state variable as the first deletion left it, so the card
  counts stay the same; the whole state, the stored item included, is the same when
  the first write succeeded or the second one failed. The second call ends as a
  deletion does, with no alert and no exception. Deleting an id that no card of the card
  list and no card of the active deck has leaves every state variable as it was.
\<close>

theorem deleteCard_idempotent:
  "let s1 = snd (deleteCard e1 cardId b s); s2 = snd (deleteCard e2 cardId b s1)
   in s2\<lparr>disk := disk s1\<rparr> = s1 \<and>
      (write_ok e1 \<or> \<not> write_ok e2 \<longrightarrow> s2 = s1) \<and>
      fst (deleteCard e2 cardId b s1) = (case b of Cancel \<Rightarrow> Cancelled | Delete \<Rightarrow> Success) \<and>
      length (flashcards s2) = length (flashcards s1) \<and>
      map (\<lambda>d. length (cards_of d)) (decks s2) = map (\<lambda>d. length (cards_of d)) (decks s1) \<and>
      (cardId \<notin> card_id ` set (flashcards s) \<and>
       (\<forall>d \<in> set (decks s). deck_id d = currentDeck s \<longrightarrow>
          (\<exists>cs. cards d = Some cs \<and> cardId \<notin> card_id ` set cs)) \<longrightarrow>
       fst (deleteCard e1 cardId b s) = (case b of Cancel \<Rightarrow> Cancelled | Delete \<Rightarrow> Success) \<and>
       s1\<lparr>disk := disk s\<rparr> = s)"
proof (cases b)
  case Cancel
  then show ?thesis by (simp add: deleteCard_def)
next
  case Delete
  let ?p = "\<lambda>c. card_id c \<noteq> cardId"
  let ?f = "\<lambda>d. if deck_id d = currentDeck s
                 then d\<lparr>cards := Some (filter ?p (cards_of d))\<rparr> else d"
  let ?s1 = "snd (deleteCard e1 cardId b s)"
  let ?s2 = "snd (deleteCard e2 cardId b ?s1)"
  have s1: "?s1 = s\<lparr>decks := map ?f (decks s), disk := saveData e1 (map ?f (decks s)) (disk s),
                     flashcards := filter ?p (flashcards s)\<rparr>"
    using Delete by (simp add: deleteCard_def Let_def)
  have s2: "?s2 = ?s1\<lparr>disk := saveData e2 (map ?f (decks s)) (disk ?s1)\<rparr>"
    using Delete by (simp add: deleteCard_def Let_def s1 filter_cards_twice del: map_map)
  have same: "write_ok e1 \<or> \<not> write_ok e2 \<Longrightarrow> ?s2 = ?s1"
    by (subst s2) (auto simp: s1 saveData_def)
  have absent: "?s1\<lparr>disk := disk s\<rparr> = s"
    if "cardId \<notin> card_id ` set (flashcards s)"
      and "\<forall>d \<in> set (decks s). deck_id d = currentDeck s \<longrightarrow>
             (\<exists>cs. cards d = Some cs \<and> cardId \<notin> card_id ` set cs)"
  proof -
    have "map ?f (decks s) = decks s"
      using that(2) by (rule filter_cards_absent)
    moreover have "filter ?p (flashcards s) = flashcards s"
      using that(1) by (rule filter_absent)
    ultimately show ?thesis by (simp add: s1)
  qed
  have "?s2\<lparr>disk := disk ?s1\<rparr> = ?s1" by (subst s2) simp
  moreover have "flashcards ?s2 = flashcards ?s1" "decks ?s2 = decks ?s1"
    by (subst s2, simp)+
  moreover have "fst (deleteCard e2 cardId b ?s1) = Success"
    "fst (deleteCard e1 cardId b s) = Success"
    using Delete by (simp_all add: deleteCard_def Let_def)
  ultimately show ?thesis using same absent Delete by (simp add: Let_def)
qed

theorem deleteCard_idempotent_witness:
  "write_ok (at_time 3) \<and>
   snd (deleteCard (at_time 4) 1 Delete
     (snd (deleteCard (at_time 3) 1 Delete
        (fresh_install
          \<lparr>flashcards :=
             [\<lparr>card_id = 1, card_question = js ''a'', card_answer = js ''b'',
                createdAt = js ''t1''\<rparr>,
              \<lparr>card_id = 2, card_question = js ''c'', card_answer = js ''d'',
                createdAt = js ''t2''\<rparr>],
           decks :=
             [\<lparr>deck_id = js ''default'', deck_name = js ''My Cards'',
                cards = Some [\<lparr>card_id = 1, card_question = js ''a'', card_answer = js ''b'',
                               createdAt = js ''t1''\<rparr>,
                              \<lparr>card_id = 2, card_question = js ''c'', card_answer = js ''d'',
                               createdAt = js ''t2''\<rparr>]\<rparr>]\<rparr>)))) =
   snd (deleteCard (at_time 3) 1 Delete
        (fresh_install
          \<lparr>flashcards :=
             [\<lparr>card_id = 1, card_question = js ''a'', card_answer = js ''b'',
                createdAt = js ''t1''\<rparr>,
              \<lparr>card_id = 2, card_question = js ''c'', card_answer = js ''d'',
                createdAt = js ''t2''\<rparr>],
           decks :=
             [\<lparr>deck_id = js ''default'', deck_name = js ''My Cards'',
                cards = Some [\<lparr>card_id = 1, card_question = js ''a'', card_answer = js ''b'',
                               createdAt = js ''t1''\<rparr>,
                              \<lparr>card_id = 2, card_question = js ''c'', card_answer = js ''d'',
                               createdAt = js ''t2''\<rparr>]\<rparr>]\<rparr>)) \<and>
   (snd (deleteCard (at_time 3) 7 Delete
        (fresh_install
          \<lparr>flashcards :=
             [\<lparr>card_id = 1, card_question = js ''a'', card_answer = js ''b'',
                createdAt = js ''t1''\<rparr>,
              \<lparr>card_id = 2, card_question = js ''c'', card_answer = js ''d'',
                createdAt = js ''t2''\<rparr>],
           decks :=
             [\<lparr>deck_id = js ''default'', deck_name = js ''My Cards'',
                cards = Some [\<lparr>card_id = 1, card_question = js ''a'', card_answer = js ''b'',
                               createdAt = js ''t1''\<rparr>,
                              \<lparr>card_id = 2, card_question = js ''c'', card_answer = js ''d'',
                               createdAt = js ''t2''\<rparr>]\<rparr>]\<rparr>)))\<lparr>disk := Absent\<rparr> =
   fresh_install
     \<lparr>flashcards :=
        [\<lparr>card_id = 1, card_question = js ''a'', card_answer = js ''b'',
           createdAt = js ''t1''\<rparr>,
         \<lparr>card_id = 2, card_question = js ''c'', card_answer = js ''d'',
           createdAt = js ''t2''\<rparr>],
      decks :=
        [\<lparr>deck_id = js ''default'', deck_name = js ''My Cards'',
           cards = Some [\<lparr>card_id = 1, card_question = js ''a'', card_answer = js ''b'',
                          createdAt = js ''t1''\<rparr>,
                         \<lparr>card_id = 2, card_question = js ''c'', card_answer = js ''d'',
                          createdAt = js ''t2''\<rparr>]\<rparr>]\<rparr>"
proof -
  let ?cs = "[\<lparr>card_id = 1, card_question = js ''a'', card_answer = js ''b'',
                createdAt = js ''t1''\<rparr>,
              \<lparr>card_id = 2, card_question = js ''c'', card_answer = js ''d'',
                createdAt = js ''t2''\<rparr>]"
  let ?s = "fresh_install
     \<lparr>flashcards := ?cs,
      decks := [\<lparr>deck_id = js ''default'', deck_name = js ''My Cards'', cards = Some ?cs\<rparr>]\<rparr>"
  have w: "write_ok (at_time 3)" by (simp add: at_time_def)
  have a: "7 \<notin> card_id ` set (flashcards ?s)" by simp
  have b: "\<forall>d \<in> set (decks ?s). deck_id d = currentDeck ?s \<longrightarrow>
            (\<exists>cs. cards d = Some cs \<and> 7 \<notin> card_id ` set cs)"
    by simp
  have k: "disk ?s = Absent" by (simp add: fresh_install_def initial_def)
  from deleteCard_idempotent [where ?e1.0 = "at_time 3" and cardId = 1 and b = Delete and s = ?s
      and ?e2.0 = "at_time 4"] w
  have one: "snd (deleteCard (at_time 4) 1 Delete (snd (deleteCard (at_time 3) 1 Delete ?s))) =
             snd (deleteCard (at_time 3) 1 Delete ?s)"
    by (simp add: Let_def)
  from deleteCard_idempotent [where ?e1.0 = "at_time 3" and cardId = 7 and b = Delete and s = ?s
      and ?e2.0 = "at_time 3"] a b
  have two: "(snd (deleteCard (at_time 3) 7 Delete ?s))\<lparr>disk := disk ?s\<rparr> = ?s"
    by (simp add: Let_def)
  from w one two show ?thesis unfolding k by simp
qed

subsection \<open>C8: saving and loading\<close>

text \<open>
  C8: after a successful \<open>saveData\<close> of a non-empty deck list, a load whose read
  succeeds ends with the home screen rendered and yields that deck list, from any state
  and so at the next launch.
\<close>

theorem save_then_load_roundtrip:
  assumes "ds \<noteq> []" and "write_ok e1" and "read_ok e2"
  shows "map_option decks (load e2 (s\<lparr>disk := saveData e1 ds (disk s)\<rparr>)) = Some ds \<and>
         map_option decks (launch e2 (saveData e1 ds st)) = Some ds"
  using assms
  by (simp add: load_def launch_def loadData_def saveData_def initial_def Let_def
      split: option.splits)

theorem save_then_load_roundtrip_witness:
  "[\<lparr>deck_id = js ''7'', deck_name = js ''Math'',
      cards = Some [\<lparr>card_id = 8, card_question = js ''2+2?'', card_answer = js ''4'',
                     createdAt = js ''1970-01-01T00:00:00.008Z''\<rparr>]\<rparr>] \<noteq> [] \<and>
   write_ok (at_time 9) \<and> read_ok (at_time 10) \<and>
   map_option decks (launch (at_time 10)
     (saveData (at_time 9)
        [\<lparr>deck_id = js ''7'', deck_name = js ''Math'',
           cards = Some [\<lparr>card_id = 8, card_question = js ''2+2?'', card_answer = js ''4'',
                          createdAt = js ''1970-01-01T00:00:00.008Z''\<rparr>]\<rparr>] Absent)) =
     Some [\<lparr>deck_id = js ''7'', deck_name = js ''Math'',
        cards = Some [\<lparr>card_id = 8, card_question = js ''2+2?'', card_answer = js ''4'',
                       createdAt = js ''1970-01-01T00:00:00.008Z''\<rparr>]\<rparr>]"
proof -
  let ?ds = "[\<lparr>deck_id = js ''7'', deck_name = js ''Math'',
      cards = Some [\<lparr>card_id = 8, card_question = js ''2+2?'', card_answer = js ''4'',
                     createdAt = js ''1970-01-01T00:00:00.008Z''\<rparr>]\<rparr>]"
  have h1: "?ds \<noteq> []" by simp
  have h2: "write_ok (at_time 9)" by (simp add: at_time_def)
  have h3: "read_ok (at_time 10)" by (simp add: at_time_def)
  from save_then_load_roundtrip [OF h1 h2 h3, where s = fresh_install and st = Absent] h2 h3
  show ?thesis by simp
qed

subsection \<open>C9: the study session\<close>

text \<open>
  C9: with no cards, \<open>studyCards\<close> shows the alert \<open>No Cards\<close> and does not enter
  study mode. With \<open>N\<close> cards, \<open>N \<ge> 1\<close>, it enters study mode at index 0; after
  \<open>k\<close> calls of \<open>nextCard\<close>, for every \<open>k < N\<close>, the session is still on and the
  index is \<open>k\<close>; the \<open>N\<close>-th call ends the session.
\<close>

theorem study_session_walk:
  "if flashcards s = [] then (\<exists>m. studyCards s = (Alert ''No Cards'' m, s))
   else fst (studyCards s) = Success \<and>
        (\<forall>k < length (flashcards s).
           studyMode ((nextCard ^^ k) (snd (studyCards s))) \<and>
           currentCardIndex ((nextCard ^^ k) (snd (studyCards s))) = k) \<and>
        \<not> studyMode ((nextCard ^^ length (flashcards s)) (snd (studyCards s)))"
proof (cases "flashcards s = []")
  case True
  then show ?thesis by (simp add: studyCards_def)
next
  case False
  let ?t = "snd (studyCards s)"
  have t: "studyMode ?t" "currentCardIndex ?t = 0" "flashcards ?t = flashcards s"
    using False by (simp_all add: studyCards_def)
  have walk: "\<forall>k < length (flashcards s).
           studyMode ((nextCard ^^ k) ?t) \<and> currentCardIndex ((nextCard ^^ k) ?t) = k"
    using nextCard_walk [OF t(1) t(2)] t(3) by simp
  obtain n where n: "length (flashcards s) = Suc n" using False by (cases "flashcards s") auto
  have "currentCardIndex ((nextCard ^^ n) ?t) = n" using walk n by simp
  then have "\<not> studyMode (nextCard ((nextCard ^^ n) ?t))"
    using n t(3) by (intro nextCard_last) simp
  then have "\<not> studyMode ((nextCard ^^ length (flashcards s)) ?t)" using n by simp
  then show ?thesis using False walk by (simp add: studyCards_def)
qed

theorem study_session_walk_witness:
  "length (flashcards (fresh_install
      \<lparr>flashcards :=
         [\<lparr>card_id = 1, card_question = js ''a'', card_answer = js ''b'', createdAt = js ''t1''\<rparr>,
          \<lparr>card_id = 2, card_question = js ''c'', card_answer = js ''d'', createdAt = js ''t2''\<rparr>]\<rparr>))
     = 2 \<and>
   studyMode ((nextCard ^^ 1) (snd (studyCards (fresh_install
      \<lparr>flashcards :=
         [\<lparr>card_id = 1, card_question = js ''a'', card_answer = js ''b'', createdAt = js ''t1''\<rparr>,
          \<lparr>card_id = 2, card_question = js ''c'', card_answer = js ''d'', createdAt = js ''t2''\<rparr>]\<rparr>)))) \<and>
   currentCardIndex ((nextCard ^^ 1) (snd (studyCards (fresh_install
      \<lparr>flashcards :=
         [\<lparr>card_id = 1, card_question = js ''a'', card_answer = js ''b'', createdAt = js ''t1''\<rparr>,
          \<lparr>card_id = 2, card_question = js ''c'', card_answer = js ''d'', createdAt = js ''t2''\<rparr>]\<rparr>))))
     = 1 \<and>
   \<not> studyMode ((nextCard ^^ 2) (snd (studyCards (fresh_install
      \<lparr>flashcards :=
         [\<lparr>card_id = 1, card_question = js ''a'', card_answer = js ''b'', createdAt = js ''t1''\<rparr>,
          \<lparr>card_id = 2, card_question = js ''c'', card_answer = js ''d'', createdAt = js ''t2''\<rparr>]\<rparr>))))"
proof -
  let ?s = "fresh_install
      \<lparr>flashcards :=
         [\<lparr>card_id = 1, card_question = js ''a'', card_answer = js ''b'', createdAt = js ''t1''\<rparr>,
          \<lparr>card_id = 2, card_question = js ''c'', card_answer = js ''d'', createdAt = js ''t2''\<rparr>]\<rparr>"
  have l: "length (flashcards ?s) = 2" by simp
  then have ne: "flashcards ?s \<noteq> []" by auto
  note all = study_session_walk [of ?s, unfolded if_not_P [OF ne] l]
  from all
  have w: "\<forall>k<2. studyMode ((nextCard ^^ k) (snd (studyCards ?s))) \<and>
                 currentCardIndex ((nextCard ^^ k) (snd (studyCards ?s))) = k"
    by (rule conjunct1 [OF conjunct2])
  from all
  have e: "\<not> studyMode ((nextCard ^^ 2) (snd (studyCards ?s)))"
    by (rule conjunct2 [OF conjunct2])
  from w have "studyMode ((nextCard ^^ 1) (snd (studyCards ?s))) \<and>
               currentCardIndex ((nextCard ^^ 1) (snd (studyCards ?s))) = 1"
    by (rule allE [of _ 1]) simp
  with l e show ?thesis by simp
qed

subsection \<open>C10: the card list and the cards of the active deck\<close>

text \<open>
  C10 says that the card list always equals the cards of the deck whose id is the
  active deck id. On a fresh installation, create a deck (the clock reads 5), delete the
  deck \<open>default\<close> and start the app again: \<open>loadData\<close> leaves the active deck id at
  \<open>default\<close>, the id of no deck. \<open>saveCard\<close> then appends the new card to the card
  list while it updates no deck: the card list holds a card that is in no deck, and the
  only deck has no cards.

  While the active deck id names a deck, the card list is the cards of that deck after
  every run in which the deck ids stay unique and \<open>switchDeck\<close> gets ids of the list
  (lemma \<open>mirrors_run\<close>); the active deck id names no deck only when it is \<open>default\<close>,
  after a launch.
\<close>

theorem card_added_after_relaunch_is_in_no_deck:
  "case run [(at_time 5, CreateDeck (js ''Math'')),
             (at_time 6, DeleteDeck (js ''default'') Delete),
             (at_time 7, Launch),
             (at_time 8, AddCard (js ''2+2?'') (js ''4''))] fresh_install of
     None \<Rightarrow> False
   | Some t \<Rightarrow>
       flashcards t =
         [\<lparr>card_id = 8, card_question = js ''2+2?'', card_answer = js ''4'',
            createdAt = js ''1970-01-01T00:00:00.008Z''\<rparr>] \<and>
       decks t = [\<lparr>deck_id = js ''5'', deck_name = js ''Math'', cards = Some []\<rparr>] \<and>
       currentDeck t = js ''default''"
  by code_simp

end
